theory Spec2Isabelle
  imports Main
begin

section \<open>Data model of the user flow\<close>

text \<open>
  The class \<open>UserFlow\<close> and the function \<open>auditGatherSteps\<close> are embedded as pure
  functions over an explicit session record. Values that the flow only passes along
  (the page, configurations, scored results) are opaque handles.

  An \<open>Error\<close> carries the message of a \<open>new Error(...)\<close> of the source; \<open>Thrown\<close>
  stands for any other value a collaborator rejects with.
\<close>

datatype error = Error string | Thrown nat

datatype page = Page nat
datatype config_json = ConfigJson nat
datatype lh_config = LhConfig nat
datatype lhr = Lhr nat

datatype gather_mode = Navigation | Timespan | Snapshot

text \<open>
  \<open>LH.UserFlow.StepFlags\<close>: every property is optional (\<open>None\<close> is \<open>undefined\<close>).
  The flags the flow never inspects are kept as a list of key/value pairs.
\<close>

record stepFlags =
  name :: "string option"
  skipAboutBlank :: "bool option"
  disableStorageReset :: "bool option"
  otherFlags :: "(string \<times> string) list"

text \<open>The object literal \<open>{}\<close>, which \<open>{...undefined}\<close> evaluates to.\<close>

definition emptyFlags :: stepFlags where
  "emptyFlags = \<lparr>name = None, skipAboutBlank = None, disableStorageReset = None, otherFlags = []\<rparr>"

text \<open>
  \<open>LH.Artifacts\<close>, reduced to the two properties the flow reads:
  \<open>artifacts.URL.finalDisplayedUrl\<close> and \<open>artifacts.GatherContext.gatherMode\<close>.
\<close>

record artifacts =
  finalDisplayedUrl :: string
  gatherMode :: gather_mode
  otherArtifacts :: nat

record runnerOptions =
  config :: lh_config
  computedCache :: "(string \<times> nat) list"

text \<open>\<open>LH.Gatherer.FRGatherResult\<close>: what each gatherer resolves with.\<close>

record gatherResult =
  resultArtifacts :: artifacts
  resultRunnerOptions :: runnerOptions

text \<open>
  A gather step is a JavaScript object, and the \<open>WeakMap\<close> of runner options is keyed by
  object identity: \<open>addr\<close> is that identity. A step read back from JSON is another object
  with the same contents, that is, another \<open>addr\<close>.
\<close>

record gatherStep =
  addr :: nat
  artifacts :: artifacts
  stepFlags :: "stepFlags option"

type_synonym gatherStepRunnerOptions = "nat \<rightharpoonup> runnerOptions"

text \<open>\<open>LH.UserFlow.Options\<close>, the optional second argument of the constructor.\<close>

record userFlowOptions =
  flowName :: "string option"
  flowConfig :: "config_json option"

text \<open>The second argument of a gatherer: \<open>{config, flags}\<close>.\<close>

record gatherOptions =
  gatherConfig :: "config_json option"
  gatherFlags :: "stepFlags option"

text \<open>
  The object \<open>startTimespanGather\<close> resolves with. Its only method is
  \<open>endTimespanGather()\<close>; the field is what that call settles with.
\<close>

datatype timespan = TimespanHandle (endTimespanGather: "error + gatherResult")

text \<open>
  What \<open>navigate()\<close> is asked to navigate with: a URL, a callback of the caller, or the
  callback \<open>startNavigation\<close> builds, which resolves the setup promise when it is invoked.
\<close>

datatype requestor = UrlRequestor string | CallbackRequestor nat | SetupRequestor

text \<open>
  A run of \<open>navigationGather\<close>: it rejects before it has invoked the requestor, or it
  invokes the requestor and, once the requestor's promise has resolved, settles with
  the given outcome.
\<close>

datatype gather_run = FailsBeforeRequestor error | InvokesRequestor "error + gatherResult"

text \<open>
  \<open>this.currentNavigation = {continueAndAwaitResult}\<close>. The closure holds the pending
  \<open>navigate()\<close> call: the flags that call computed when it began, and what its gatherer
  settles with once \<open>continueNavigation()\<close> has released it.
\<close>

record navigationHandle =
  pendingStepFlags :: stepFlags
  pendingGather :: "error + gatherResult"

record userFlow =
  page :: page
  options :: "userFlowOptions option"
  gatherSteps :: "gatherStep list"
  registry :: gatherStepRunnerOptions
  currentNavigation :: "navigationHandle option"
  currentTimespan :: "(timespan \<times> stepFlags option) option"

text \<open>The parts of a parsed \<open>URL\<close> object.\<close>

record url =
  hostname :: string
  pathname :: string
  search :: string
  hash :: string

record runnerResult =
  resultLhr :: lhr

text \<open>
  The collaborators the module imports, and the platform's \<open>URL\<close> constructor
  (\<open>Inl\<close> is its \<open>TypeError\<close> on a string that is not a URL). Each is a parameter of
  the model; a call is assumed to settle.
\<close>

record collaborators =
  navigationGather :: "page \<Rightarrow> requestor \<Rightarrow> gatherOptions \<Rightarrow> gather_run"
  startTimespanGather :: "page \<Rightarrow> gatherOptions \<Rightarrow> error + timespan"
  snapshotGather :: "page \<Rightarrow> gatherOptions \<Rightarrow> error + gatherResult"
  initializeConfig :: "gather_mode \<Rightarrow> config_json option \<Rightarrow> stepFlags option \<Rightarrow> error + lh_config"
  runnerAudit :: "artifacts \<Rightarrow> runnerOptions \<Rightarrow> error + runnerResult option"
  newURL :: "string \<Rightarrow> error + url"

text \<open>The calls to collaborators an operation made, in order.\<close>

datatype call =
    NavigationGatherCall page requestor gatherOptions
  | StartTimespanGatherCall page gatherOptions
  | EndTimespanGatherCall timespan
  | SnapshotGatherCall page gatherOptions
  | InitializeConfigCall gather_mode "config_json option" "stepFlags option"
  | RunnerAuditCall artifacts runnerOptions

text \<open>
  How the promise of an asynchronous method ends: resolved, rejected, or never settled.
\<close>

datatype outcome = Resolved | Rejected error | Pending

section \<open>The flow session\<close>

text \<open>The constructor.\<close>

definition newUserFlow :: "page \<Rightarrow> userFlowOptions option \<Rightarrow> userFlow" where
  "newUserFlow p opts =
     \<lparr>page = p, options = opts, gatherSteps = [], registry = Map.empty,
      currentNavigation = None, currentTimespan = None\<rparr>"

text \<open>\<open>this._options?.config\<close> and \<open>this._options?.name\<close>.\<close>

definition optionsConfig :: "userFlow \<Rightarrow> config_json option" where
  "optionsConfig flow = (case options flow of None \<Rightarrow> None | Some opts \<Rightarrow> flowConfig opts)"

definition optionsName :: "userFlow \<Rightarrow> string option" where
  "optionsName flow = (case options flow of None \<Rightarrow> None | Some opts \<Rightarrow> flowName opts)"

definition isSubsequentNavigation :: "userFlow \<Rightarrow> bool" where
  "isSubsequentNavigation flow =
     list_ex (\<lambda>step. gatherMode (artifacts step) = Navigation) (gatherSteps flow)"

definition getNextNavigationFlags :: "userFlow \<Rightarrow> stepFlags option \<Rightarrow> stepFlags" where
  "getNextNavigationFlags flow flags =
     (let newStepFlags = (case flags of None \<Rightarrow> emptyFlags | Some f \<Rightarrow> f);
          newStepFlags =
            (if skipAboutBlank newStepFlags = None
             then newStepFlags\<lparr>skipAboutBlank := Some True\<rparr> else newStepFlags)
      in if isSubsequentNavigation flow
         then (if disableStorageReset newStepFlags = None
               then newStepFlags\<lparr>disableStorageReset := Some True\<rparr> else newStepFlags)
         else newStepFlags)"

text \<open>
  \<open>_addGatherStep\<close>: a new step object is pushed and its runner options are recorded
  under its identity. The new object's address is the number of steps pushed so far.
\<close>

definition addGatherStep :: "userFlow \<Rightarrow> gatherResult \<Rightarrow> stepFlags option \<Rightarrow> userFlow" where
  "addGatherStep flow gatherResult flags =
     (let gatherStep =
        \<lparr>addr = length (gatherSteps flow), artifacts = resultArtifacts gatherResult,
         stepFlags = flags\<rparr>
      in flow\<lparr>gatherSteps := gatherSteps flow @ [gatherStep],
              registry := (registry flow)(addr gatherStep \<mapsto> resultRunnerOptions gatherResult)\<rparr>)"

text \<open>
  \<open>navigate\<close> in two halves, because \<open>startNavigation\<close> and \<open>endNavigation\<close> run one
  half each. \<open>navigateBegin\<close> is the method up to the moment its gatherer invokes the
  requestor: the two guards, the flags, the call of \<open>navigationGather\<close>. It yields the
  error the method throws, or the flags together with what the gatherer will settle
  with. \<open>navigateEnd\<close> is the rest: the gatherer settles and the step is added.
\<close>

definition navigateBegin ::
  "collaborators \<Rightarrow> userFlow \<Rightarrow> requestor \<Rightarrow> stepFlags option
     \<Rightarrow> call list \<times> (error + stepFlags \<times> (error + gatherResult))" where
  "navigateBegin env flow req flags =
     (if currentTimespan flow \<noteq> None then ([], Inl (Error ''Timespan already in progress''))
      else if currentNavigation flow \<noteq> None
      then ([], Inl (Error ''Navigation already in progress''))
      else
        (let newStepFlags = getNextNavigationFlags flow flags;
             opts = \<lparr>gatherConfig = optionsConfig flow, gatherFlags = Some newStepFlags\<rparr>
         in ([NavigationGatherCall (page flow) req opts],
             (case navigationGather env (page flow) req opts of
                FailsBeforeRequestor err \<Rightarrow> Inl err
              | InvokesRequestor settled \<Rightarrow> Inr (newStepFlags, settled)))))"

definition navigateEnd :: "userFlow \<Rightarrow> stepFlags \<Rightarrow> error + gatherResult \<Rightarrow> error + userFlow" where
  "navigateEnd flow newStepFlags settled =
     (case settled of
        Inl err \<Rightarrow> Inl err
      | Inr gatherResult \<Rightarrow> Inr (addGatherStep flow gatherResult (Some newStepFlags)))"

text \<open>
  \<open>navigate\<close> called by the user: the requestor is a URL or the user's callback, so
  nothing of the session runs between the two halves.
\<close>

definition navigate ::
  "collaborators \<Rightarrow> userFlow \<Rightarrow> requestor \<Rightarrow> stepFlags option \<Rightarrow> call list \<times> outcome \<times> userFlow" where
  "navigate env flow req flags =
     (case navigateBegin env flow req flags of
        (calls, Inl err) \<Rightarrow> (calls, Rejected err, flow)
      | (calls, Inr (newStepFlags, settled)) \<Rightarrow>
          (case navigateEnd flow newStepFlags settled of
             Inl err \<Rightarrow> (calls, Rejected err, flow)
           | Inr flow' \<Rightarrow> (calls, Resolved, flow')))"

text \<open>
  The handler \<open>.catch(err => ...)\<close> that \<open>startNavigation\<close> attaches to the promise of
  \<open>navigate()\<close>. It reads \<open>this.currentNavigation\<close> when the failure arrives: it
  throws again, which rejects \<open>navigationResultPromise\<close>, or it calls
  \<open>rejectDuringSetup\<close>, which rejects \<open>navigationSetupPromise\<close>.
\<close>

datatype catch_route = RethrowToResult error | RejectDuringSetup error

definition navigateCatch :: "userFlow \<Rightarrow> error \<Rightarrow> catch_route" where
  "navigateCatch flow err =
     (if currentNavigation flow \<noteq> None then RethrowToResult err else RejectDuringSetup err)"

text \<open>
  \<open>startNavigation\<close> awaits \<open>navigationSetupPromise\<close>. The requestor resolves it; the
  handler rejects it on the route \<open>RejectDuringSetup\<close>; on the route \<open>RethrowToResult\<close>
  nothing settles it any more, and the method never returns. After the await the
  handle is installed.
\<close>

definition startNavigation ::
  "collaborators \<Rightarrow> userFlow \<Rightarrow> stepFlags option \<Rightarrow> call list \<times> outcome \<times> userFlow" where
  "startNavigation env flow stepOptions =
     (case navigateBegin env flow SetupRequestor stepOptions of
        (calls, Inl err) \<Rightarrow>
          (case navigateCatch flow err of
             RejectDuringSetup e \<Rightarrow> (calls, Rejected e, flow)
           | RethrowToResult e \<Rightarrow> (calls, Pending, flow))
      | (calls, Inr (newStepFlags, settled)) \<Rightarrow>
          (calls, Resolved,
           flow\<lparr>currentNavigation :=
                  Some \<lparr>pendingStepFlags = newStepFlags, pendingGather = settled\<rparr>\<rparr>))"

text \<open>
  \<open>endNavigation\<close>: after the guards, \<open>continueAndAwaitResult()\<close> releases the pending
  \<open>navigate()\<close> and awaits \<open>navigationResultPromise\<close>. A failure of the pending call
  goes through the handler first. On the route \<open>RejectDuringSetup\<close> the handler returns
  normally (the setup promise is settled already), so the result promise resolves.
  The slot is cleared on the line after the await.
\<close>

definition endNavigation :: "userFlow \<Rightarrow> call list \<times> outcome \<times> userFlow" where
  "endNavigation flow =
     (if currentTimespan flow \<noteq> None
      then ([], Rejected (Error ''Timespan already in progress''), flow)
      else
        (case currentNavigation flow of
           None \<Rightarrow> ([], Rejected (Error ''No navigation in progress''), flow)
         | Some handle \<Rightarrow>
             (case navigateEnd flow (pendingStepFlags handle) (pendingGather handle) of
                Inr flow' \<Rightarrow> ([], Resolved, flow'\<lparr>currentNavigation := None\<rparr>)
              | Inl err \<Rightarrow>
                  (case navigateCatch flow err of
                     RethrowToResult e \<Rightarrow> ([], Rejected e, flow)
                   | RejectDuringSetup e \<Rightarrow>
                       ([], Resolved, flow\<lparr>currentNavigation := None\<rparr>)))))"

definition startTimespan ::
  "collaborators \<Rightarrow> userFlow \<Rightarrow> stepFlags option \<Rightarrow> call list \<times> outcome \<times> userFlow" where
  "startTimespan env flow flags =
     (if currentTimespan flow \<noteq> None
      then ([], Rejected (Error ''Timespan already in progress''), flow)
      else if currentNavigation flow \<noteq> None
      then ([], Rejected (Error ''Navigation already in progress''), flow)
      else
        (let opts = \<lparr>gatherConfig = optionsConfig flow, gatherFlags = flags\<rparr>
         in (case startTimespanGather env (page flow) opts of
               Inl err \<Rightarrow> ([StartTimespanGatherCall (page flow) opts], Rejected err, flow)
             | Inr ts \<Rightarrow>
                 ([StartTimespanGatherCall (page flow) opts], Resolved,
                  flow\<lparr>currentTimespan := Some (ts, flags)\<rparr>))))"

definition endTimespan :: "userFlow \<Rightarrow> call list \<times> outcome \<times> userFlow" where
  "endTimespan flow =
     (case currentTimespan flow of
        None \<Rightarrow> ([], Rejected (Error ''No timespan in progress''), flow)
      | Some (ts, flags) \<Rightarrow>
          (if currentNavigation flow \<noteq> None
           then ([], Rejected (Error ''Navigation already in progress''), flow)
           else
             (case endTimespanGather ts of
                Inl err \<Rightarrow> ([EndTimespanGatherCall ts], Rejected err, flow)
              | Inr gatherResult \<Rightarrow>
                  ([EndTimespanGatherCall ts], Resolved,
                   addGatherStep (flow\<lparr>currentTimespan := None\<rparr>) gatherResult flags))))"

definition snapshot ::
  "collaborators \<Rightarrow> userFlow \<Rightarrow> stepFlags option \<Rightarrow> call list \<times> outcome \<times> userFlow" where
  "snapshot env flow flags =
     (if currentTimespan flow \<noteq> None
      then ([], Rejected (Error ''Timespan already in progress''), flow)
      else if currentNavigation flow \<noteq> None
      then ([], Rejected (Error ''Navigation already in progress''), flow)
      else
        (let opts = \<lparr>gatherConfig = optionsConfig flow, gatherFlags = flags\<rparr>
         in (case snapshotGather env (page flow) opts of
               Inl err \<Rightarrow> ([SnapshotGatherCall (page flow) opts], Rejected err, flow)
             | Inr gatherResult \<Rightarrow>
                 ([SnapshotGatherCall (page flow) opts], Resolved,
                  addGatherStep flow gatherResult flags))))"

subsection \<open>Sequences of operations\<close>

text \<open>
  The six gather operations of the session, each with the collaborators it meets.
  A sequence is run one operation after the other: the caller awaits each before it
  invokes the next. An operation that never settles leaves nothing running behind
  it, so the next one meets the state it left.
\<close>

datatype flow_op =
    NavigateOp requestor "stepFlags option"
  | StartNavigationOp "stepFlags option"
  | EndNavigationOp
  | StartTimespanOp "stepFlags option"
  | EndTimespanOp
  | SnapshotOp "stepFlags option"

fun exec :: "collaborators \<Rightarrow> userFlow \<Rightarrow> flow_op \<Rightarrow> call list \<times> outcome \<times> userFlow" where
  "exec env flow (NavigateOp req flags) = navigate env flow req flags"
| "exec env flow (StartNavigationOp flags) = startNavigation env flow flags"
| "exec env flow EndNavigationOp = endNavigation flow"
| "exec env flow (StartTimespanOp flags) = startTimespan env flow flags"
| "exec env flow EndTimespanOp = endTimespan flow"
| "exec env flow (SnapshotOp flags) = snapshot env flow flags"

fun run :: "userFlow \<Rightarrow> (collaborators \<times> flow_op) list \<Rightarrow> userFlow" where
  "run flow [] = flow"
| "run flow ((env, op) # rest) = run (snd (snd (exec env flow op))) rest"

text \<open>
  The spec's error kind \<open>InvalidFlowState\<close>: the four precondition errors of the
  session.
\<close>

definition InvalidFlowState :: "error \<Rightarrow> bool" where
  "InvalidFlowState err =
     (err = Error ''Timespan already in progress'' \<or>
      err = Error ''Navigation already in progress'' \<or>
      err = Error ''No navigation in progress'' \<or>
      err = Error ''No timespan in progress'')"

section \<open>The audit pipeline\<close>

text \<open>One entry \<open>{lhr, name}\<close> of the result, and the result \<open>{steps, name}\<close>.\<close>

record flowStep =
  stepLhr :: lhr
  stepName :: string

record flowResult =
  steps :: "flowStep list"
  resultName :: string

text \<open>
  The second argument of \<open>auditGatherSteps\<close>:
  \<open>{name?, config?, gatherStepRunnerOptions?}\<close>.
\<close>

record auditOptions =
  auditName :: "string option"
  auditConfig :: "config_json option"
  gatherStepRunnerOptions :: "gatherStepRunnerOptions option"

definition shortenUrl :: "collaborators \<Rightarrow> string \<Rightarrow> error + string" where
  "shortenUrl env longUrl =
     (case newURL env longUrl of
        Inl err \<Rightarrow> Inl err
      | Inr u \<Rightarrow> Inr (hostname u @ pathname u))"

definition getDefaultStepName :: "collaborators \<Rightarrow> artifacts \<Rightarrow> error + string" where
  "getDefaultStepName env arts =
     (case shortenUrl env (finalDisplayedUrl arts) of
        Inl err \<Rightarrow> Inl err
      | Inr shortUrl \<Rightarrow>
          Inr (case gatherMode arts of
                 Navigation \<Rightarrow> ''Navigation report ('' @ shortUrl @ '')''
               | Timespan \<Rightarrow> ''Timespan report ('' @ shortUrl @ '')''
               | Snapshot \<Rightarrow> ''Snapshot report ('' @ shortUrl @ '')''))"

text \<open>\<open>stepFlags?.name\<close>.\<close>

definition flagsName :: "stepFlags option \<Rightarrow> string option" where
  "flagsName flags = (case flags of None \<Rightarrow> None | Some f \<Rightarrow> name f)"

text \<open>
  \<open>stepFlags?.name || getDefaultStepName(artifacts)\<close>: the right operand is evaluated
  only when the left one is \<open>undefined\<close> or the empty string.
\<close>

definition resolveStepName :: "collaborators \<Rightarrow> gatherStep \<Rightarrow> error + string" where
  "resolveStepName env gatherStep =
     (case flagsName (stepFlags gatherStep) of
        None \<Rightarrow> getDefaultStepName env (artifacts gatherStep)
      | Some n \<Rightarrow> if n = [] then getDefaultStepName env (artifacts gatherStep) else Inr n)"

text \<open>\<open>options.gatherStepRunnerOptions?.get(gatherStep)\<close>.\<close>

definition lookupRunnerOptions :: "auditOptions \<Rightarrow> gatherStep \<Rightarrow> runnerOptions option" where
  "lookupRunnerOptions opts gatherStep =
     (case gatherStepRunnerOptions opts of
        None \<Rightarrow> None
      | Some reg \<Rightarrow> reg (addr gatherStep))"

text \<open>The last three lines of the loop body, after \<open>calls\<close> were made.\<close>

definition auditWith ::
  "collaborators \<Rightarrow> gatherStep \<Rightarrow> string \<Rightarrow> call list \<Rightarrow> runnerOptions
     \<Rightarrow> call list \<times> (error + flowStep)" where
  "auditWith env gatherStep nm calls ro =
     (let calls' = calls @ [RunnerAuditCall (artifacts gatherStep) ro]
      in (case runnerAudit env (artifacts gatherStep) ro of
            Inl err \<Rightarrow> (calls', Inl err)
          | Inr None \<Rightarrow>
              (calls',
               Inl (Error (''Step '' @ [CHR 0x22] @ nm @ [CHR 0x22] @ '' did not return a result'')))
          | Inr (Some result) \<Rightarrow> (calls', Inr \<lparr>stepLhr = resultLhr result, stepName = nm\<rparr>)))"

text \<open>The body of the loop for one step.\<close>

definition auditStep ::
  "collaborators \<Rightarrow> auditOptions \<Rightarrow> gatherStep \<Rightarrow> call list \<times> (error + flowStep)" where
  "auditStep env opts gatherStep =
     (case resolveStepName env gatherStep of
        Inl err \<Rightarrow> ([], Inl err)
      | Inr nm \<Rightarrow>
          (case lookupRunnerOptions opts gatherStep of
             Some ro \<Rightarrow> auditWith env gatherStep nm [] ro
           | None \<Rightarrow>
               (let mode = gatherMode (artifacts gatherStep);
                    call = InitializeConfigCall mode (auditConfig opts) (stepFlags gatherStep)
                in (case initializeConfig env mode (auditConfig opts) (stepFlags gatherStep) of
                      Inl err \<Rightarrow> ([call], Inl err)
                    | Inr c \<Rightarrow>
                        auditWith env gatherStep nm [call]
                          \<lparr>config = c, computedCache = []\<rparr>))))"

text \<open>The loop; \<open>acc\<close> is the array \<open>steps\<close> the source pushes to.\<close>

fun auditLoop ::
  "collaborators \<Rightarrow> auditOptions \<Rightarrow> gatherStep list \<Rightarrow> flowStep list
     \<Rightarrow> call list \<times> (error + flowStep list)" where
  "auditLoop env opts [] acc = ([], Inr acc)"
| "auditLoop env opts (gatherStep # rest) acc =
     (case auditStep env opts gatherStep of
        (calls, Inl err) \<Rightarrow> (calls, Inl err)
      | (calls, Inr st) \<Rightarrow>
          (case auditLoop env opts rest (acc @ [st]) of
             (calls', r) \<Rightarrow> (calls @ calls', r)))"

definition EmptyFlow :: error where
  "EmptyFlow = Error ''Need at least one step before getting the result''"

text \<open>\<open>options.name || `User flow (${url.hostname})`\<close>.\<close>

definition resolveFlowName :: "string option \<Rightarrow> url \<Rightarrow> string" where
  "resolveFlowName given u =
     (case given of
        None \<Rightarrow> ''User flow ('' @ hostname u @ '')''
      | Some n \<Rightarrow> if n = [] then ''User flow ('' @ hostname u @ '')'' else n)"

definition auditGatherSteps ::
  "collaborators \<Rightarrow> gatherStep list \<Rightarrow> auditOptions \<Rightarrow> call list \<times> (error + flowResult)" where
  "auditGatherSteps env stepList opts =
     (case stepList of
        [] \<Rightarrow> ([], Inl EmptyFlow)
      | first # _ \<Rightarrow>
          (case auditLoop env opts stepList [] of
             (calls, Inl err) \<Rightarrow> (calls, Inl err)
           | (calls, Inr sts) \<Rightarrow>
               (case newURL env (finalDisplayedUrl (artifacts first)) of
                  Inl err \<Rightarrow> (calls, Inl err)
                | Inr u \<Rightarrow>
                    (calls, Inr \<lparr>steps = sts, resultName = resolveFlowName (auditName opts) u\<rparr>))))"

definition createFlowResult :: "collaborators \<Rightarrow> userFlow \<Rightarrow> call list \<times> (error + flowResult)" where
  "createFlowResult env flow =
     auditGatherSteps env (gatherSteps flow)
       \<lparr>auditName = optionsName flow, auditConfig = optionsConfig flow,
        gatherStepRunnerOptions = Some (registry flow)\<rparr>"

section \<open>The invariant and concrete inputs\<close>

text \<open>At most one of the two slots is occupied.\<close>

definition atMostOneActive :: "userFlow \<Rightarrow> bool" where
  "atMostOneActive flow = (currentNavigation flow = None \<or> currentTimespan flow = None)"

text \<open>
  Concrete inputs for the closed theorems below: artifacts on \<open>https://example.com/\<close>,
  a \<open>URL\<close> constructor that knows two addresses, and collaborators that answer every
  call the same way.
\<close>

definition exampleArtifacts :: "gather_mode \<Rightarrow> artifacts" where
  "exampleArtifacts mode =
     \<lparr>finalDisplayedUrl = ''https://example.com/'', gatherMode = mode, otherArtifacts = 0\<rparr>"

definition exampleResult :: "gather_mode \<Rightarrow> gatherResult" where
  "exampleResult mode =
     \<lparr>resultArtifacts = exampleArtifacts mode,
      resultRunnerOptions = \<lparr>config = LhConfig 0, computedCache = [(''cached'', 1)]\<rparr>\<rparr>"

definition exampleURL :: "string \<Rightarrow> error + url" where
  "exampleURL s =
     (if s = ''https://example.com/''
      then Inr \<lparr>hostname = ''example.com'', pathname = ''/'', search = [], hash = []\<rparr>
      else if s = ''https://example.com/a/b?q=1#top''
      then Inr \<lparr>hostname = ''example.com'', pathname = ''/a/b'', search = ''?q=1'',
                hash = ''#top''\<rparr>
      else Inl (Error ''Invalid URL''))"

definition exampleEnv :: "gather_run \<Rightarrow> error + gatherResult \<Rightarrow> collaborators" where
  "exampleEnv navRun tsEnd =
     \<lparr>navigationGather = (\<lambda>_ _ _. navRun),
      startTimespanGather = (\<lambda>_ _. Inr (TimespanHandle tsEnd)),
      snapshotGather = (\<lambda>_ _. Inr (exampleResult Snapshot)),
      initializeConfig = (\<lambda>_ _ _. Inr (LhConfig 1)),
      runnerAudit = (\<lambda>_ _. Inr (Some \<lparr>resultLhr = Lhr 0\<rparr>)),
      newURL = exampleURL\<rparr>"

text \<open>A session on which \<open>startNavigation()\<close> has resolved: a navigation is in progress.\<close>

definition navigatingFlow :: "error + gatherResult \<Rightarrow> userFlow" where
  "navigatingFlow settled =
     snd (snd (startNavigation (exampleEnv (InvokesRequestor settled) (Inl (Thrown 0)))
                 (newUserFlow (Page 0) None) None))"

text \<open>
  An operation conflicts with the state when a slot it may not meet is occupied.
\<close>

definition conflicting :: "userFlow \<Rightarrow> flow_op \<Rightarrow> bool" where
  "conflicting flow op =
     (case op of
        EndNavigationOp \<Rightarrow> currentTimespan flow \<noteq> None
      | EndTimespanOp \<Rightarrow> currentNavigation flow \<noteq> None
      | _ \<Rightarrow> currentNavigation flow \<noteq> None \<or> currentTimespan flow \<noteq> None)"


definition timespanFlow :: "error + gatherResult \<Rightarrow> userFlow" where
  "timespanFlow tsEnd =
     snd (snd (startTimespan (exampleEnv (FailsBeforeRequestor (Thrown 0)) tsEnd)
                 (newUserFlow (Page 0) None) None))"

text \<open>Gather steps on \<open>https://example.com/\<close>, and options for \<open>auditGatherSteps\<close>.\<close>

definition exampleStep :: "nat \<Rightarrow> gather_mode \<Rightarrow> stepFlags option \<Rightarrow> gatherStep" where
  "exampleStep a mode flags = \<lparr>addr = a, artifacts = exampleArtifacts mode, stepFlags = flags\<rparr>"

definition exampleSteps :: "gatherStep list" where
  "exampleSteps =
     [exampleStep 0 Navigation None, exampleStep 1 Timespan None, exampleStep 2 Snapshot None]"

definition exampleOptions :: "string option \<Rightarrow> gatherStepRunnerOptions option \<Rightarrow> auditOptions" where
  "exampleOptions nm reg = \<lparr>auditName = nm, auditConfig = None, gatherStepRunnerOptions = reg\<rparr>"

text \<open>A registry that has recorded options for the step at address 1 only.\<close>

definition exampleRegistry :: gatherStepRunnerOptions where
  "exampleRegistry = [1 \<mapsto> \<lparr>config = LhConfig 0, computedCache = [(''cached'', 1)]\<rparr>]"

section \<open>Properties of the session\<close>

subsection \<open>Mutual exclusion of the two slots\<close>

lemma newUserFlow_idle:
  "currentNavigation (newUserFlow p opts) = None \<and> currentTimespan (newUserFlow p opts) = None"
  by (simp add: newUserFlow_def)

lemma addGatherStep_slots:
  "currentNavigation (addGatherStep flow r f) = currentNavigation flow \<and>
   currentTimespan (addGatherStep flow r f) = currentTimespan flow \<and>
   gatherSteps (addGatherStep flow r f) =
     gatherSteps flow @ [\<lparr>addr = length (gatherSteps flow), artifacts = resultArtifacts r, stepFlags = f\<rparr>]"
  by (simp add: addGatherStep_def Let_def)

lemma navigateBegin_Inr_idle:
  "navigateBegin env flow req flags = (calls, Inr x) \<Longrightarrow>
     currentNavigation flow = None \<and> currentTimespan flow = None"
  by (cases "currentTimespan flow"; cases "currentNavigation flow")
     (auto simp: navigateBegin_def Let_def split: if_splits)

lemma navigate_preserves: "atMostOneActive flow \<Longrightarrow> atMostOneActive (snd (snd (navigate env flow req flags)))"
  by (auto simp: navigate_def navigateEnd_def atMostOneActive_def addGatherStep_slots
      split: prod.splits sum.splits)

lemma startNavigation_preserves:
  "atMostOneActive flow \<Longrightarrow> atMostOneActive (snd (snd (startNavigation env flow flags)))"
  by (auto simp: startNavigation_def atMostOneActive_def
      split: prod.splits sum.splits catch_route.splits dest: navigateBegin_Inr_idle)

lemma endNavigation_preserves:
  "atMostOneActive flow \<Longrightarrow> atMostOneActive (snd (snd (endNavigation flow)))"
  by (auto simp: endNavigation_def navigateEnd_def atMostOneActive_def addGatherStep_slots
      split: option.splits sum.splits catch_route.splits)

lemma startTimespan_preserves:
  "atMostOneActive flow \<Longrightarrow> atMostOneActive (snd (snd (startTimespan env flow flags)))"
  by (auto simp: startTimespan_def atMostOneActive_def Let_def split: sum.splits)

lemma endTimespan_preserves:
  "atMostOneActive flow \<Longrightarrow> atMostOneActive (snd (snd (endTimespan flow)))"
  by (auto simp: endTimespan_def atMostOneActive_def addGatherStep_slots
      split: option.splits sum.splits prod.splits)

lemma snapshot_preserves:
  "atMostOneActive flow \<Longrightarrow> atMostOneActive (snd (snd (snapshot env flow flags)))"
  by (auto simp: snapshot_def atMostOneActive_def addGatherStep_slots Let_def split: sum.splits)

lemma exec_preserves:
  "atMostOneActive flow \<Longrightarrow> atMostOneActive (snd (snd (exec env flow op)))"
  by (cases op)
     (simp_all add: navigate_preserves startNavigation_preserves endNavigation_preserves
        startTimespan_preserves endTimespan_preserves snapshot_preserves)

lemma run_preserves:
  "atMostOneActive flow \<Longrightarrow> atMostOneActive (run flow ops)"
  by (induction ops arbitrary: flow) (auto simp: exec_preserves)

text \<open>
  Whatever operations are run on a new session, one after the other, the two slots are
  never occupied together.
\<close>

lemma run_newUserFlow: "atMostOneActive (run (newUserFlow p opts) ops)"
  by (rule run_preserves) (simp add: atMostOneActive_def newUserFlow_def)

subsection \<open>Operations that meet an occupied slot\<close>

lemma navigate_timespan_active:
  "currentTimespan flow \<noteq> None \<Longrightarrow>
     navigate env flow req flags = ([], Rejected (Error ''Timespan already in progress''), flow)"
  by (simp add: navigate_def navigateBegin_def)

lemma navigate_navigation_active:
  "currentTimespan flow = None \<Longrightarrow> currentNavigation flow \<noteq> None \<Longrightarrow>
     navigate env flow req flags = ([], Rejected (Error ''Navigation already in progress''), flow)"
  by (simp add: navigate_def navigateBegin_def)

lemma navigate_active:
  "currentNavigation flow \<noteq> None \<or> currentTimespan flow \<noteq> None \<Longrightarrow>
     \<exists>e. navigate env flow req flags = ([], Rejected e, flow) \<and> InvalidFlowState e"
  by (auto simp: navigate_def navigateBegin_def InvalidFlowState_def)

lemma startNavigation_timespan_active:
  "currentTimespan flow \<noteq> None \<Longrightarrow> currentNavigation flow = None \<Longrightarrow>
     startNavigation env flow flags = ([], Rejected (Error ''Timespan already in progress''), flow)"
  by (simp add: startNavigation_def navigateBegin_def navigateCatch_def)

lemma startNavigation_navigation_active:
  "currentNavigation flow \<noteq> None \<Longrightarrow>
     startNavigation env flow flags = ([], Pending, flow)"
  by (simp add: startNavigation_def navigateBegin_def navigateCatch_def)

lemma endNavigation_timespan_active:
  "currentTimespan flow \<noteq> None \<Longrightarrow>
     endNavigation flow = ([], Rejected (Error ''Timespan already in progress''), flow)"
  by (simp add: endNavigation_def)

lemma startTimespan_active:
  "currentNavigation flow \<noteq> None \<or> currentTimespan flow \<noteq> None \<Longrightarrow>
     \<exists>e. startTimespan env flow flags = ([], Rejected e, flow) \<and> InvalidFlowState e"
  by (auto simp: startTimespan_def InvalidFlowState_def)

lemma snapshot_active:
  "currentNavigation flow \<noteq> None \<or> currentTimespan flow \<noteq> None \<Longrightarrow>
     \<exists>e. snapshot env flow flags = ([], Rejected e, flow) \<and> InvalidFlowState e"
  by (auto simp: snapshot_def InvalidFlowState_def)

lemma endTimespan_navigation_active:
  "currentNavigation flow \<noteq> None \<Longrightarrow>
     \<exists>e. endTimespan flow = ([], Rejected e, flow) \<and> InvalidFlowState e"
  by (auto simp: endTimespan_def InvalidFlowState_def split: option.splits)

text \<open>
  Every conflicting operation is rejected with a precondition error, calls no
  collaborator and leaves the session as it was, with one exception that the second
  premise sets aside: \<open>startNavigation\<close> while a navigation is in progress.
\<close>

lemma conflicting_rejected:
  assumes "conflicting flow op"
    and "currentNavigation flow = None \<or> (\<forall>flags. op \<noteq> StartNavigationOp flags)"
  shows "\<exists>e. exec env flow op = ([], Rejected e, flow) \<and> InvalidFlowState e"
proof (cases op)
  case (NavigateOp req flags)
  then show ?thesis using assms navigate_active [of flow env req flags]
    by (simp add: conflicting_def)
next
  case (StartNavigationOp flags)
  then have "currentNavigation flow = None" "currentTimespan flow \<noteq> None"
    using assms by (auto simp: conflicting_def)
  then show ?thesis using StartNavigationOp
    by (simp add: startNavigation_timespan_active InvalidFlowState_def)
next
  case EndNavigationOp
  then show ?thesis using assms
    by (simp add: conflicting_def endNavigation_timespan_active InvalidFlowState_def)
next
  case (StartTimespanOp flags)
  then show ?thesis using assms startTimespan_active [of flow env flags]
    by (simp add: conflicting_def)
next
  case EndTimespanOp
  then show ?thesis using assms endTimespan_navigation_active [of flow]
    by (simp add: conflicting_def)
next
  case (SnapshotOp flags)
  then show ?thesis using assms snapshot_active [of flow env flags]
    by (simp add: conflicting_def)
qed

lemma navigatingFlow_eq:
  "navigatingFlow settled =
     (newUserFlow (Page 0) None)
       \<lparr>currentNavigation := Some \<lparr>pendingStepFlags = emptyFlags\<lparr>skipAboutBlank := Some True\<rparr>,
                                   pendingGather = settled\<rparr>\<rparr>"
  by (simp add: navigatingFlow_def startNavigation_def navigateBegin_def newUserFlow_def
        exampleEnv_def getNextNavigationFlags_def isSubsequentNavigation_def Let_def emptyFlags_def)

text \<open>
  Claim C1. For every sequence of operations at most one of \<open>currentNavigation\<close> and
  \<open>currentTimespan\<close> is set, and an operation invoked while the conflicting slot is
  occupied fails with an \<open>InvalidFlowState\<close> error and appends no step.

  The source does not do this for \<open>startNavigation\<close> invoked while a navigation is in
  progress. The inner \<open>navigate()\<close> throws \<open>Navigation already in progress\<close>, but the
  handler finds \<open>this.currentNavigation\<close> set, by the earlier call, and throws the
  error again instead of rejecting the setup promise. The setup promise is then never
  settled: the second \<open>startNavigation()\<close> neither resolves nor rejects. The theorem
  evaluates the source on a session whose first \<open>startNavigation()\<close> has resolved.
\<close>

theorem C1_startNavigation_never_settles:
  "currentNavigation (navigatingFlow (Inr (exampleResult Navigation))) \<noteq> None \<and>
   currentTimespan (navigatingFlow (Inr (exampleResult Navigation))) = None \<and>
   exec (exampleEnv (InvokesRequestor (Inr (exampleResult Navigation))) (Inl (Thrown 0)))
        (navigatingFlow (Inr (exampleResult Navigation))) (StartNavigationOp None)
     = ([], Pending, navigatingFlow (Inr (exampleResult Navigation)))"
  by (simp add: navigatingFlow_eq startNavigation_navigation_active newUserFlow_def)

subsection \<open>The two-phase navigation\<close>

text \<open>
  Claim C2. Every failure of the \<open>navigate()\<close> call inside \<open>startNavigation\<close> is routed
  by whether the handle is installed when the failure arrives: not installed, the
  setup promise is rejected and \<open>startNavigation\<close> rejects with the failure; installed,
  the failure is kept and raised again when \<open>endNavigation\<close> awaits
  \<open>continueAndAwaitResult()\<close>.

  On the session of claim C1 the source does neither. The failure of the second
  \<open>navigate()\<close> is the precondition error; the handle the handler finds installed is
  the one of the first call, so the error goes to the result promise of the second
  call, which no handle awaits. \<open>startNavigation\<close> does not reject, and the
  \<open>endNavigation\<close> that follows awaits the first call and resolves: no operation
  ever raises the error.
\<close>

theorem C2_failure_never_raised:
  "navigateBegin (exampleEnv (InvokesRequestor (Inr (exampleResult Navigation))) (Inl (Thrown 0)))
     (navigatingFlow (Inr (exampleResult Navigation))) SetupRequestor None
     = ([], Inl (Error ''Navigation already in progress'')) \<and>
   navigateCatch (navigatingFlow (Inr (exampleResult Navigation)))
     (Error ''Navigation already in progress'')
     = RethrowToResult (Error ''Navigation already in progress'') \<and>
   startNavigation (exampleEnv (InvokesRequestor (Inr (exampleResult Navigation))) (Inl (Thrown 0)))
     (navigatingFlow (Inr (exampleResult Navigation))) None
     = ([], Pending, navigatingFlow (Inr (exampleResult Navigation))) \<and>
   fst (snd (endNavigation (navigatingFlow (Inr (exampleResult Navigation))))) = Resolved"
  by (simp add: navigatingFlow_eq startNavigation_def navigateBegin_def navigateCatch_def
        endNavigation_def navigateEnd_def newUserFlow_def)

lemma startNavigation_Rejected:
  assumes "startNavigation env flow flags = (calls, Rejected err, flow')"
  shows "flow' = flow \<and> currentNavigation flow' = None"
  using assms
  by (auto simp: startNavigation_def navigateCatch_def
      split: prod.splits sum.splits catch_route.splits if_splits)


lemma endNavigation_Rejected:
  assumes "endNavigation flow = (calls, Rejected err, flow')"
    and "currentNavigation flow = Some h" and "currentTimespan flow = None"
  shows "flow' = flow \<and> pendingGather h = Inl err \<and> calls = []"
  using assms
  by (auto simp: endNavigation_def navigateEnd_def navigateCatch_def
      split: sum.splits catch_route.splits if_splits)

lemma endNavigation_Resolved:
  assumes "endNavigation flow = (calls, Resolved, flow')"
  shows "currentNavigation flow' = None \<and> currentTimespan flow = None \<and>
         (\<exists>h r. currentNavigation flow = Some h \<and> pendingGather h = Inr r \<and>
            flow' = (addGatherStep flow r (Some (pendingStepFlags h)))\<lparr>currentNavigation := None\<rparr>)"
  using assms
  by (cases "currentTimespan flow")
     (auto simp: endNavigation_def navigateEnd_def navigateCatch_def
      split: sum.splits catch_route.splits if_splits option.splits)

lemma startNavigation_timespan_rejects:
  assumes "currentNavigation flow = None" and "currentTimespan flow \<noteq> None"
  shows "startNavigation env flow flags =
           ([], Rejected (Error ''Timespan already in progress''), flow)"
  using assms by (simp add: startNavigation_def navigateBegin_def navigateCatch_def)

lemma startNavigation_setup_fails:
  assumes "currentNavigation flow = None" and "currentTimespan flow = None"
    and "navigationGather env (page flow) SetupRequestor
           \<lparr>gatherConfig = optionsConfig flow,
            gatherFlags = Some (getNextNavigationFlags flow flags)\<rparr> = FailsBeforeRequestor err"
  shows "startNavigation env flow flags =
           ([NavigationGatherCall (page flow) SetupRequestor
               \<lparr>gatherConfig = optionsConfig flow,
                gatherFlags = Some (getNextNavigationFlags flow flags)\<rparr>],
            Rejected err, flow)"
  using assms by (simp add: startNavigation_def navigateBegin_def navigateCatch_def Let_def)

lemma startNavigation_ready:
  assumes "currentNavigation flow = None" and "currentTimespan flow = None"
    and "navigationGather env (page flow) SetupRequestor
           \<lparr>gatherConfig = optionsConfig flow,
            gatherFlags = Some (getNextNavigationFlags flow flags)\<rparr> = InvokesRequestor settled"
  shows "startNavigation env flow flags =
           ([NavigationGatherCall (page flow) SetupRequestor
               \<lparr>gatherConfig = optionsConfig flow,
                gatherFlags = Some (getNextNavigationFlags flow flags)\<rparr>],
            Resolved,
            flow\<lparr>currentNavigation :=
                   Some \<lparr>pendingStepFlags = getNextNavigationFlags flow flags,
                         pendingGather = settled\<rparr>\<rparr>)"
  using assms by (simp add: startNavigation_def navigateBegin_def Let_def)

lemma endNavigation_gather_fails:
  assumes "currentTimespan flow = None" and "currentNavigation flow = Some h"
    and "pendingGather h = Inl err"
  shows "endNavigation flow = ([], Rejected err, flow)"
  using assms by (simp add: endNavigation_def navigateEnd_def navigateCatch_def)

text \<open>
  Claim C3, as the source has it, for a handshake that begins while no navigation is
  in progress. A failure before the setup completes (a timespan is in progress, or
  the gatherer rejects before it invokes the requestor) makes \<open>startNavigation\<close>
  reject with that failure and leaves the session as it was; whenever
  \<open>startNavigation\<close> rejects, \<open>currentNavigation\<close> is not set. A failure after the
  handle is installed makes \<open>endNavigation\<close> reject with that failure and leaves the
  session as it was: no step is appended and \<open>currentNavigation\<close> stays set, because
  the assignment that clears it follows the await that rejected. The slot is cleared
  when \<open>endNavigation\<close> resolves.
\<close>

theorem C3_failed_handshake:
  "(currentNavigation flow = None \<and> currentTimespan flow \<noteq> None \<longrightarrow>
      startNavigation env flow flags =
        ([], Rejected (Error ''Timespan already in progress''), flow)) \<and>
   (currentNavigation flow = None \<and> currentTimespan flow = None \<and>
    navigationGather env (page flow) SetupRequestor
      \<lparr>gatherConfig = optionsConfig flow,
       gatherFlags = Some (getNextNavigationFlags flow flags)\<rparr> = FailsBeforeRequestor err \<longrightarrow>
      startNavigation env flow flags =
        ([NavigationGatherCall (page flow) SetupRequestor
            \<lparr>gatherConfig = optionsConfig flow,
             gatherFlags = Some (getNextNavigationFlags flow flags)\<rparr>],
         Rejected err, flow)) \<and>
   (startNavigation env flow flags = (calls, Rejected err, flow') \<longrightarrow>
      flow' = flow \<and> currentNavigation flow' = None) \<and>
   (currentNavigation flow = None \<and> currentTimespan flow = None \<and>
    navigationGather env (page flow) SetupRequestor
      \<lparr>gatherConfig = optionsConfig flow,
       gatherFlags = Some (getNextNavigationFlags flow flags)\<rparr> = InvokesRequestor (Inl err) \<longrightarrow>
      startNavigation env flow flags =
        ([NavigationGatherCall (page flow) SetupRequestor
            \<lparr>gatherConfig = optionsConfig flow,
             gatherFlags = Some (getNextNavigationFlags flow flags)\<rparr>],
         Resolved,
         flow\<lparr>currentNavigation :=
                Some \<lparr>pendingStepFlags = getNextNavigationFlags flow flags,
                      pendingGather = Inl err\<rparr>\<rparr>) \<and>
      endNavigation
        (flow\<lparr>currentNavigation :=
                Some \<lparr>pendingStepFlags = getNextNavigationFlags flow flags,
                      pendingGather = Inl err\<rparr>\<rparr>) =
        ([], Rejected err,
         flow\<lparr>currentNavigation :=
                Some \<lparr>pendingStepFlags = getNextNavigationFlags flow flags,
                      pendingGather = Inl err\<rparr>\<rparr>)) \<and>
   (currentTimespan flow1 = None \<and> currentNavigation flow1 = Some h \<and>
    pendingGather h = Inl err \<longrightarrow>
      endNavigation flow1 = ([], Rejected err, flow1)) \<and>
   (endNavigation flow1 = (calls', Resolved, flow2) \<longrightarrow> currentNavigation flow2 = None)"
proof (intro conjI impI)
  assume "currentNavigation flow = None \<and> currentTimespan flow \<noteq> None"
  then show "startNavigation env flow flags =
        ([], Rejected (Error ''Timespan already in progress''), flow)"
    by (simp add: startNavigation_timespan_rejects)
next
  assume "currentNavigation flow = None \<and> currentTimespan flow = None \<and>
    navigationGather env (page flow) SetupRequestor
      \<lparr>gatherConfig = optionsConfig flow,
       gatherFlags = Some (getNextNavigationFlags flow flags)\<rparr> = FailsBeforeRequestor err"
  then show "startNavigation env flow flags =
        ([NavigationGatherCall (page flow) SetupRequestor
            \<lparr>gatherConfig = optionsConfig flow,
             gatherFlags = Some (getNextNavigationFlags flow flags)\<rparr>],
         Rejected err, flow)"
    by (simp add: startNavigation_setup_fails)
next
  assume "startNavigation env flow flags = (calls, Rejected err, flow')"
  then show "flow' = flow" "currentNavigation flow' = None"
    using startNavigation_Rejected by blast+
next
  assume a: "currentNavigation flow = None \<and> currentTimespan flow = None \<and>
    navigationGather env (page flow) SetupRequestor
      \<lparr>gatherConfig = optionsConfig flow,
       gatherFlags = Some (getNextNavigationFlags flow flags)\<rparr> = InvokesRequestor (Inl err)"
  let ?h = "\<lparr>pendingStepFlags = getNextNavigationFlags flow flags, pendingGather = Inl err\<rparr>"
  let ?flow1 = "flow\<lparr>currentNavigation := Some ?h\<rparr>"
  from a show "startNavigation env flow flags =
        ([NavigationGatherCall (page flow) SetupRequestor
            \<lparr>gatherConfig = optionsConfig flow,
             gatherFlags = Some (getNextNavigationFlags flow flags)\<rparr>],
         Resolved, ?flow1)"
    by (simp add: startNavigation_ready)
  have "currentTimespan ?flow1 = None" "currentNavigation ?flow1 = Some ?h"
    "pendingGather ?h = Inl err"
    using a by simp_all
  then show "endNavigation ?flow1 = ([], Rejected err, ?flow1)"
    by (rule endNavigation_gather_fails)
next
  assume "currentTimespan flow1 = None \<and> currentNavigation flow1 = Some h \<and>
    pendingGather h = Inl err"
  then show "endNavigation flow1 = ([], Rejected err, flow1)"
    by (simp add: endNavigation_gather_fails)
next
  assume "endNavigation flow1 = (calls', Resolved, flow2)"
  then show "currentNavigation flow2 = None" using endNavigation_Resolved by blast
qed

text \<open>
  The two failures on concrete sessions: the gatherer rejects before it invokes the
  requestor, and the gatherer rejects after \<open>endNavigation\<close> released it.
\<close>

theorem C3_failed_handshake_witness:
  "startNavigation (exampleEnv (FailsBeforeRequestor (Thrown 2)) (Inl (Thrown 0)))
     (newUserFlow (Page 0) None) None
     = ([NavigationGatherCall (Page 0) SetupRequestor
           \<lparr>gatherConfig = None, gatherFlags = Some (emptyFlags\<lparr>skipAboutBlank := Some True\<rparr>)\<rparr>],
        Rejected (Thrown 2), newUserFlow (Page 0) None) \<and>
   currentNavigation (newUserFlow (Page 0) None) = None \<and>
   startNavigation (exampleEnv (InvokesRequestor (Inl (Thrown 1))) (Inl (Thrown 0)))
     (newUserFlow (Page 0) None) None
     = ([NavigationGatherCall (Page 0) SetupRequestor
           \<lparr>gatherConfig = None, gatherFlags = Some (emptyFlags\<lparr>skipAboutBlank := Some True\<rparr>)\<rparr>],
        Resolved, navigatingFlow (Inl (Thrown 1))) \<and>
   endNavigation (navigatingFlow (Inl (Thrown 1)))
     = ([], Rejected (Thrown 1), navigatingFlow (Inl (Thrown 1))) \<and>
   currentNavigation (navigatingFlow (Inl (Thrown 1))) \<noteq> None \<and>
   gatherSteps (navigatingFlow (Inl (Thrown 1))) = []"
proof -
  let ?new = "newUserFlow (Page 0) None"
  let ?opts = "\<lparr>gatherConfig = None, gatherFlags = Some (emptyFlags\<lparr>skipAboutBlank := Some True\<rparr>)\<rparr>"
  let ?call = "NavigationGatherCall (Page 0) SetupRequestor ?opts"
  let ?envA = "exampleEnv (FailsBeforeRequestor (Thrown 2)) (Inl (Thrown 0))"
  let ?envB = "exampleEnv (InvokesRequestor (Inl (Thrown 1))) (Inl (Thrown 0))"
  have idle: "currentNavigation ?new = None" "currentTimespan ?new = None"
    by (simp_all add: newUserFlow_def)
  have flags: "getNextNavigationFlags ?new None = emptyFlags\<lparr>skipAboutBlank := Some True\<rparr>"
    by (simp add: getNextNavigationFlags_def isSubsequentNavigation_def newUserFlow_def
          emptyFlags_def Let_def)
  have cfg: "optionsConfig ?new = None" "page ?new = Page 0"
    by (simp_all add: optionsConfig_def newUserFlow_def)
  have gA: "navigationGather ?envA (page ?new) SetupRequestor
      \<lparr>gatherConfig = optionsConfig ?new,
       gatherFlags = Some (getNextNavigationFlags ?new None)\<rparr> = FailsBeforeRequestor (Thrown 2)"
    and gB: "navigationGather ?envB (page ?new) SetupRequestor
      \<lparr>gatherConfig = optionsConfig ?new,
       gatherFlags = Some (getNextNavigationFlags ?new None)\<rparr> = InvokesRequestor (Inl (Thrown 1))"
    by (simp_all add: exampleEnv_def)
  have nf: "navigatingFlow (Inl (Thrown 1)) =
      ?new\<lparr>currentNavigation :=
              Some \<lparr>pendingStepFlags = getNextNavigationFlags ?new None,
                    pendingGather = Inl (Thrown 1)\<rparr>\<rparr>"
    by (simp add: navigatingFlow_eq flags)
  from C3_failed_handshake [where flow = ?new and env = ?envA and flags = None
      and err = "Thrown 2"] idle gA
  have s1: "startNavigation ?envA ?new None = ([?call], Rejected (Thrown 2), ?new)"
    by (simp add: flags cfg)
  from C3_failed_handshake [where flow = ?new and env = ?envB and flags = None
      and err = "Thrown 1"] idle gB
  have s2: "startNavigation ?envB ?new None = ([?call], Resolved, navigatingFlow (Inl (Thrown 1)))"
    and e2: "endNavigation (navigatingFlow (Inl (Thrown 1)))
      = ([], Rejected (Thrown 1), navigatingFlow (Inl (Thrown 1)))"
    unfolding nf by (simp_all add: flags cfg)
  have b: "currentNavigation (navigatingFlow (Inl (Thrown 1))) \<noteq> None"
    "gatherSteps (navigatingFlow (Inl (Thrown 1))) = []"
    by (simp_all add: navigatingFlow_eq newUserFlow_def)
  from s1 idle(1) s2 e2 b show ?thesis by (intro conjI)
qed

text \<open>
  Claim C3 as it was stated says the slot ends up cleared in both cases. Here
  \<open>startNavigation\<close> resolves, \<open>endNavigation\<close> rejects with the gatherer's failure,
  and \<open>currentNavigation\<close> is still set afterwards.
\<close>

theorem C3_slot_stays_set:
  "fst (snd (startNavigation (exampleEnv (InvokesRequestor (Inl (Thrown 1))) (Inl (Thrown 0)))
               (newUserFlow (Page 0) None) None)) = Resolved \<and>
   endNavigation (navigatingFlow (Inl (Thrown 1)))
     = ([], Rejected (Thrown 1), navigatingFlow (Inl (Thrown 1))) \<and>
   currentNavigation (navigatingFlow (Inl (Thrown 1))) \<noteq> None"
  by (simp add: navigatingFlow_eq startNavigation_def navigateBegin_def navigateCatch_def
        endNavigation_def navigateEnd_def newUserFlow_def exampleEnv_def Let_def)

subsection \<open>Default flags of a navigation\<close>








subsection \<open>A timespan whose end fails\<close>

lemma timespanFlow_eq:
  "timespanFlow tsEnd =
     (newUserFlow (Page 0) None)\<lparr>currentTimespan := Some (TimespanHandle tsEnd, None)\<rparr>"
  by (simp add: timespanFlow_def startTimespan_def newUserFlow_def exampleEnv_def Let_def)

lemma endTimespan_Rejected_called:
  assumes "endTimespan flow = (calls, Rejected err, flow')" and "EndTimespanGatherCall ts \<in> set calls"
  shows "flow' = flow \<and> currentNavigation flow = None \<and> calls = [EndTimespanGatherCall ts] \<and>
         endTimespanGather ts = Inl err \<and> (\<exists>flags. currentTimespan flow = Some (ts, flags))"
  using assms
  by (cases "currentNavigation flow")
     (auto simp: endTimespan_def split: option.splits sum.splits if_splits)

lemma timespan_active_rejects:
  assumes "currentTimespan flow \<noteq> None" and "currentNavigation flow = None"
    and "op \<noteq> EndTimespanOp"
  shows "exec env flow op = ([], Rejected (Error ''Timespan already in progress''), flow)"
  using assms
  by (cases op)
     (simp_all add: navigate_timespan_active startNavigation_timespan_active
        endNavigation_timespan_active startTimespan_def snapshot_def)

lemma timespan_active_run:
  assumes "currentTimespan flow \<noteq> None" and "currentNavigation flow = None"
    and "EndTimespanOp \<notin> snd ` set ops"
  shows "run flow ops = flow"
  using assms
proof (induction ops)
  case Nil
  then show ?case by simp
next
  case (Cons a ops)
  obtain env op where a: "a = (env, op)" by (cases a)
  with Cons.prems have "op \<noteq> EndTimespanOp" by auto
  with Cons.prems have "exec env flow op = ([], Rejected (Error ''Timespan already in progress''), flow)"
    by (simp add: timespan_active_rejects)
  with Cons a show ?case by simp
qed

lemma endTimespan_gather_fails:
  assumes "currentTimespan flow = Some (ts, flags)" and "currentNavigation flow = None"
    and "endTimespanGather ts = Inl err"
  shows "endTimespan flow = ([EndTimespanGatherCall ts], Rejected err, flow)"
  using assms by (simp add: endTimespan_def)

text \<open>
  \<open>endTimespan\<close> calls \<open>endTimespanGather()\<close> only on a session with a timespan and
  without a navigation in progress: these are the premises of the theorem below.
\<close>

lemma endTimespan_called:
  assumes "EndTimespanGatherCall ts \<in> set (fst (endTimespan flow))"
  shows "currentNavigation flow = None \<and> (\<exists>flags. currentTimespan flow = Some (ts, flags))"
  using assms
  by (cases "currentNavigation flow")
     (auto simp: endTimespan_def split: option.splits sum.splits if_splits)

text \<open>
  Claim C9. On a session where \<open>endTimespan\<close> gets as far as \<open>endTimespanGather()\<close>
  and that call fails, \<open>endTimespan\<close> has made the call and rejects with its failure;
  the session is unchanged (no step is appended, \<open>currentTimespan\<close> is still set), and
  every later operation other than \<open>endTimespan\<close> is rejected with
  \<open>Timespan already in progress\<close>, however many of them are run.
\<close>

theorem C9_endTimespan_failure:
  assumes "currentTimespan flow = Some (ts, flags)"
    and "currentNavigation flow = None"
    and "endTimespanGather ts = Inl err"
  shows "endTimespan flow = ([EndTimespanGatherCall ts], Rejected err, flow) \<and>
         (\<forall>env op. op \<noteq> EndTimespanOp \<longrightarrow>
            exec env flow op = ([], Rejected (Error ''Timespan already in progress''), flow)) \<and>
         (\<forall>ops. EndTimespanOp \<notin> snd ` set ops \<longrightarrow> run flow ops = flow)"
proof -
  have t: "currentTimespan flow \<noteq> None" using assms(1) by simp
  show ?thesis
    using endTimespan_gather_fails [OF assms] timespan_active_rejects [OF t assms(2)]
      timespan_active_run [OF t assms(2)]
    by blast
qed

theorem C9_endTimespan_failure_witness:
  "endTimespan (timespanFlow (Inl (Thrown 3)))
     = ([EndTimespanGatherCall (TimespanHandle (Inl (Thrown 3)))], Rejected (Thrown 3),
        timespanFlow (Inl (Thrown 3))) \<and>
   currentTimespan (timespanFlow (Inl (Thrown 3))) = Some (TimespanHandle (Inl (Thrown 3)), None) \<and>
   currentNavigation (timespanFlow (Inl (Thrown 3))) = None \<and>
   endTimespanGather (TimespanHandle (Inl (Thrown 3))) = Inl (Thrown 3) \<and>
   gatherSteps (timespanFlow (Inl (Thrown 3))) = [] \<and>
   exec (exampleEnv (InvokesRequestor (Inr (exampleResult Navigation))) (Inl (Thrown 0)))
     (timespanFlow (Inl (Thrown 3))) (SnapshotOp None)
     = ([], Rejected (Error ''Timespan already in progress''), timespanFlow (Inl (Thrown 3))) \<and>
   exec (exampleEnv (InvokesRequestor (Inr (exampleResult Navigation))) (Inl (Thrown 0)))
     (timespanFlow (Inl (Thrown 3))) (StartNavigationOp None)
     = ([], Rejected (Error ''Timespan already in progress''), timespanFlow (Inl (Thrown 3)))"
proof -
  let ?ts = "TimespanHandle (Inl (Thrown 3))"
  let ?flow = "timespanFlow (Inl (Thrown 3))"
  let ?env = "exampleEnv (InvokesRequestor (Inr (exampleResult Navigation))) (Inl (Thrown 0))"
  have t: "currentTimespan ?flow = Some (?ts, None)"
    and n: "currentNavigation ?flow = None"
    and g: "gatherSteps ?flow = []"
    by (simp_all add: timespanFlow_eq newUserFlow_def)
  have f: "endTimespanGather ?ts = Inl (Thrown 3)" by simp
  note r = C9_endTimespan_failure [OF t n f]
  from r have e: "endTimespan ?flow = ([EndTimespanGatherCall ?ts], Rejected (Thrown 3), ?flow)"
    by (rule conjunct1)
  have every: "\<And>env op. op \<noteq> EndTimespanOp \<Longrightarrow>
      exec env ?flow op = ([], Rejected (Error ''Timespan already in progress''), ?flow)"
    using r by blast
  have x1: "exec ?env ?flow (SnapshotOp None)
          = ([], Rejected (Error ''Timespan already in progress''), ?flow)"
    by (rule every) simp
  have x2: "exec ?env ?flow (StartNavigationOp None)
          = ([], Rejected (Error ''Timespan already in progress''), ?flow)"
    by (rule every) simp
  from e t n f g x1 x2 show ?thesis by (intro conjI)
qed

section \<open>Properties of the audit pipeline\<close>

lemma auditWith_name:
  "auditWith env g nm calls ro = (cs, Inr st) \<Longrightarrow> stepName st = nm"
  by (auto simp: auditWith_def Let_def split: sum.splits option.splits)

lemma auditStep_name:
  "auditStep env opts g = (cs, Inr st) \<Longrightarrow> resolveStepName env g = Inr (stepName st)"
  by (auto simp: auditStep_def Let_def split: sum.splits option.splits dest: auditWith_name)

lemma auditLoop_names:
  "auditLoop env opts gs acc = (cs, Inr sts) \<Longrightarrow>
     \<exists>new. sts = acc @ new \<and>
       list_all2 (\<lambda>g st. resolveStepName env g = Inr (stepName st)) gs new"
proof (induction gs arbitrary: acc cs)
  case Nil
  then show ?case by simp
next
  case (Cons g gs)
  from Cons.prems obtain c1 st c2 where
    st: "auditStep env opts g = (c1, Inr st)" and
    rest: "auditLoop env opts gs (acc @ [st]) = (c2, Inr sts)"
    by (auto split: prod.splits sum.splits)
  from Cons.IH [OF rest] obtain new where
    new: "sts = (acc @ [st]) @ new"
         "list_all2 (\<lambda>g st. resolveStepName env g = Inr (stepName st)) gs new"
    by blast
  have "sts = acc @ (st # new)" using new(1) by simp
  moreover have "list_all2 (\<lambda>g st. resolveStepName env g = Inr (stepName st)) (g # gs) (st # new)"
    using new(2) auditStep_name [OF st] by simp
  ultimately show ?case by blast
qed

lemma auditGatherSteps_names:
  assumes "auditGatherSteps env gs opts = (cs, Inr res)"
  shows "list_all2 (\<lambda>g st. resolveStepName env g = Inr (stepName st)) gs (steps res)"
proof -
  from assms obtain c sts where
    loop: "auditLoop env opts gs [] = (c, Inr sts)" and res: "steps res = sts"
    by (auto simp: auditGatherSteps_def split: list.splits prod.splits sum.splits)
  from auditLoop_names [OF loop] show ?thesis using res by simp
qed

lemma auditGatherSteps_name_nth:
  assumes "auditGatherSteps env gs opts = (cs, Inr res)" and "i < length gs"
  shows "length (steps res) = length gs \<and> resolveStepName env (gs ! i) = Inr (stepName (steps res ! i))"
  using auditGatherSteps_names [OF assms(1)] assms(2)
  by (auto simp: list_all2_conv_all_nth)

lemma auditGatherSteps_flowName:
  assumes "auditGatherSteps env gs opts = (cs, Inr res)"
  shows "\<exists>first rest u. gs = first # rest \<and>
           newURL env (finalDisplayedUrl (artifacts first)) = Inr u \<and>
           resultName res = resolveFlowName (auditName opts) u"
  using assms
  by (auto simp: auditGatherSteps_def split: list.splits prod.splits sum.splits)

lemma auditStep_reconstructs:
  assumes "auditStep env opts g = (cs, Inr st)" and "lookupRunnerOptions opts g = None"
  shows "\<exists>c. initializeConfig env (gatherMode (artifacts g)) (auditConfig opts) (stepFlags g) = Inr c \<and>
           cs = [InitializeConfigCall (gatherMode (artifacts g)) (auditConfig opts) (stepFlags g),
                 RunnerAuditCall (artifacts g) \<lparr>config = c, computedCache = []\<rparr>]"
  using assms
  by (auto simp: auditStep_def auditWith_def Let_def split: sum.splits option.splits)

lemma auditLoop_calls:
  "auditLoop env opts gs acc = (cs, Inr sts) \<Longrightarrow> i < length gs \<Longrightarrow>
     \<exists>pre post c st. cs = pre @ c @ post \<and> auditStep env opts (gs ! i) = (c, Inr st)"
proof (induction gs arbitrary: acc cs i)
  case Nil
  then show ?case by simp
next
  case (Cons g gs)
  from Cons.prems(1) obtain c1 st c2 where
    st: "auditStep env opts g = (c1, Inr st)" and
    rest: "auditLoop env opts gs (acc @ [st]) = (c2, Inr sts)" and
    cs: "cs = c1 @ c2"
    by (auto split: prod.splits sum.splits)
  show ?case
  proof (cases i)
    case 0
    have "cs = [] @ c1 @ c2" using cs by simp
    then show ?thesis using st 0 by fastforce
  next
    case (Suc j)
    with Cons.prems(2) have "j < length gs" by simp
    from Cons.IH [OF rest this] obtain pre post c st' where
      "c2 = pre @ c @ post" "auditStep env opts (gs ! j) = (c, Inr st')" by blast
    then have "cs = (c1 @ pre) @ c @ post" "auditStep env opts ((g # gs) ! i) = (c, Inr st')"
      using cs Suc by simp_all
    then show ?thesis by blast
  qed
qed

text \<open>The pipeline on the concrete steps.\<close>

lemma exampleStep_audit_absent:
  "auditStep (exampleEnv r t) (exampleOptions nm None) (exampleStep a mode None) =
     ([InitializeConfigCall mode None None,
       RunnerAuditCall (exampleArtifacts mode) \<lparr>config = LhConfig 1, computedCache = []\<rparr>],
      Inr \<lparr>stepLhr = Lhr 0,
           stepName = (case mode of Navigation \<Rightarrow> ''Navigation report (example.com/)''
                       | Timespan \<Rightarrow> ''Timespan report (example.com/)''
                       | Snapshot \<Rightarrow> ''Snapshot report (example.com/)'')\<rparr>)"
  by (cases mode)
     (simp_all add: auditStep_def auditWith_def resolveStepName_def flagsName_def
        getDefaultStepName_def shortenUrl_def lookupRunnerOptions_def exampleEnv_def
        exampleOptions_def exampleStep_def exampleArtifacts_def exampleURL_def Let_def)

lemma exampleSteps_audit:
  "auditGatherSteps (exampleEnv r t) exampleSteps (exampleOptions None None) =
     ([InitializeConfigCall Navigation None None,
       RunnerAuditCall (exampleArtifacts Navigation) \<lparr>config = LhConfig 1, computedCache = []\<rparr>,
       InitializeConfigCall Timespan None None,
       RunnerAuditCall (exampleArtifacts Timespan) \<lparr>config = LhConfig 1, computedCache = []\<rparr>,
       InitializeConfigCall Snapshot None None,
       RunnerAuditCall (exampleArtifacts Snapshot) \<lparr>config = LhConfig 1, computedCache = []\<rparr>],
      Inr \<lparr>steps =
             [\<lparr>stepLhr = Lhr 0, stepName = ''Navigation report (example.com/)''\<rparr>,
              \<lparr>stepLhr = Lhr 0, stepName = ''Timespan report (example.com/)''\<rparr>,
              \<lparr>stepLhr = Lhr 0, stepName = ''Snapshot report (example.com/)''\<rparr>],
           resultName = ''User flow (example.com)''\<rparr>)"
proof -
  have u: "newURL (exampleEnv r t) (finalDisplayedUrl (artifacts (exampleStep 0 Navigation None)))
      = Inr \<lparr>hostname = ''example.com'', pathname = ''/'', search = [], hash = []\<rparr>"
    by (simp add: exampleEnv_def exampleStep_def exampleArtifacts_def exampleURL_def)
  show ?thesis
    unfolding auditGatherSteps_def exampleSteps_def
    by (simp add: exampleStep_audit_absent u resolveFlowName_def)
       (simp add: exampleOptions_def)
qed

lemma exampleSteps_audit_registry:
  "auditGatherSteps (exampleEnv r t) exampleSteps (exampleOptions None (Some exampleRegistry)) =
     ([InitializeConfigCall Navigation None None,
       RunnerAuditCall (exampleArtifacts Navigation) \<lparr>config = LhConfig 1, computedCache = []\<rparr>,
       RunnerAuditCall (exampleArtifacts Timespan)
         \<lparr>config = LhConfig 0, computedCache = [(''cached'', 1)]\<rparr>,
       InitializeConfigCall Snapshot None None,
       RunnerAuditCall (exampleArtifacts Snapshot) \<lparr>config = LhConfig 1, computedCache = []\<rparr>],
      Inr \<lparr>steps =
             [\<lparr>stepLhr = Lhr 0, stepName = ''Navigation report (example.com/)''\<rparr>,
              \<lparr>stepLhr = Lhr 0, stepName = ''Timespan report (example.com/)''\<rparr>,
              \<lparr>stepLhr = Lhr 0, stepName = ''Snapshot report (example.com/)''\<rparr>],
           resultName = ''User flow (example.com)''\<rparr>)"
  by (simp add: auditGatherSteps_def exampleSteps_def auditStep_def auditWith_def
        resolveStepName_def flagsName_def getDefaultStepName_def shortenUrl_def
        lookupRunnerOptions_def exampleEnv_def exampleOptions_def exampleStep_def
        exampleArtifacts_def exampleURL_def exampleRegistry_def resolveFlowName_def Let_def)

lemma exampleStep_single:
  "auditGatherSteps (exampleEnv r t) [exampleStep 0 Navigation None] (exampleOptions nm None) =
     ([InitializeConfigCall Navigation None None,
       RunnerAuditCall (exampleArtifacts Navigation) \<lparr>config = LhConfig 1, computedCache = []\<rparr>],
      Inr \<lparr>steps = [\<lparr>stepLhr = Lhr 0, stepName = ''Navigation report (example.com/)''\<rparr>],
           resultName = resolveFlowName nm
             \<lparr>hostname = ''example.com'', pathname = ''/'', search = [], hash = []\<rparr>\<rparr>)"
proof -
  have u: "newURL (exampleEnv r t) (finalDisplayedUrl (artifacts (exampleStep 0 Navigation None)))
      = Inr \<lparr>hostname = ''example.com'', pathname = ''/'', search = [], hash = []\<rparr>"
    by (simp add: exampleEnv_def exampleStep_def exampleArtifacts_def exampleURL_def)
  show ?thesis
    unfolding auditGatherSteps_def
    by (simp add: exampleStep_audit_absent u) (simp add: exampleOptions_def)
qed

text \<open>
  Claim C5. For a step whose runner options the registry does not hold (there is no
  registry, or it has no entry for the step), \<open>auditGatherSteps\<close> calls
  \<open>initializeConfig\<close> with the step's gather mode, the flow's config and the step's
  flags, and audits the step with the resulting config and an empty computation
  cache. The name of the step in the result is the same under any other options, so
  it does not depend on the lookup.
\<close>

theorem C5_reconstructed_options:
  assumes "auditGatherSteps env gs opts = (calls, Inr res)"
    and "i < length gs"
    and "lookupRunnerOptions opts (gs ! i) = None"
  shows "(\<exists>c pre post.
            initializeConfig env (gatherMode (artifacts (gs ! i))) (auditConfig opts)
              (stepFlags (gs ! i)) = Inr c \<and>
            calls = pre @
              [InitializeConfigCall (gatherMode (artifacts (gs ! i))) (auditConfig opts)
                 (stepFlags (gs ! i)),
               RunnerAuditCall (artifacts (gs ! i)) \<lparr>config = c, computedCache = []\<rparr>] @ post) \<and>
         (\<forall>opts' calls' res'.
            auditGatherSteps env gs opts' = (calls', Inr res') \<longrightarrow>
              stepName (steps res' ! i) = stepName (steps res ! i))"
proof (intro conjI allI impI)
  from assms(1) obtain sts where loop: "auditLoop env opts gs [] = (calls, Inr sts)"
    by (auto simp: auditGatherSteps_def split: list.splits prod.splits sum.splits)
  from auditLoop_calls [OF loop assms(2)] obtain pre post c st where
    cs: "calls = pre @ c @ post" and st: "auditStep env opts (gs ! i) = (c, Inr st)" by blast
  from auditStep_reconstructs [OF st assms(3)] cs
  show "\<exists>c pre post.
            initializeConfig env (gatherMode (artifacts (gs ! i))) (auditConfig opts)
              (stepFlags (gs ! i)) = Inr c \<and>
            calls = pre @
              [InitializeConfigCall (gatherMode (artifacts (gs ! i))) (auditConfig opts)
                 (stepFlags (gs ! i)),
               RunnerAuditCall (artifacts (gs ! i)) \<lparr>config = c, computedCache = []\<rparr>] @ post"
    by blast
next
  fix opts' calls' res'
  assume "auditGatherSteps env gs opts' = (calls', Inr res')"
  from auditGatherSteps_name_nth [OF this assms(2)] auditGatherSteps_name_nth [OF assms(1) assms(2)]
  show "stepName (steps res' ! i) = stepName (steps res ! i)" by simp
qed

theorem C5_reconstructed_options_witness:
  "lookupRunnerOptions (exampleOptions None (Some exampleRegistry)) (exampleSteps ! 2) = None \<and>
   lookupRunnerOptions (exampleOptions None (Some exampleRegistry)) (exampleSteps ! 1) \<noteq> None \<and>
   auditGatherSteps (exampleEnv (FailsBeforeRequestor (Thrown 0)) (Inl (Thrown 0))) exampleSteps
     (exampleOptions None (Some exampleRegistry)) =
     ([InitializeConfigCall Navigation None None,
       RunnerAuditCall (exampleArtifacts Navigation) \<lparr>config = LhConfig 1, computedCache = []\<rparr>,
       RunnerAuditCall (exampleArtifacts Timespan)
         \<lparr>config = LhConfig 0, computedCache = [(''cached'', 1)]\<rparr>,
       InitializeConfigCall Snapshot None None,
       RunnerAuditCall (exampleArtifacts Snapshot) \<lparr>config = LhConfig 1, computedCache = []\<rparr>],
      Inr
      \<lparr>steps =
             [\<lparr>stepLhr = Lhr 0, stepName = ''Navigation report (example.com/)''\<rparr>,
              \<lparr>stepLhr = Lhr 0, stepName = ''Timespan report (example.com/)''\<rparr>,
              \<lparr>stepLhr = Lhr 0, stepName = ''Snapshot report (example.com/)''\<rparr>],
           resultName = ''User flow (example.com)''\<rparr>) \<and>
   snd (auditGatherSteps (exampleEnv (FailsBeforeRequestor (Thrown 0)) (Inl (Thrown 0)))
          exampleSteps (exampleOptions None None)) = Inr
      \<lparr>steps =
             [\<lparr>stepLhr = Lhr 0, stepName = ''Navigation report (example.com/)''\<rparr>,
              \<lparr>stepLhr = Lhr 0, stepName = ''Timespan report (example.com/)''\<rparr>,
              \<lparr>stepLhr = Lhr 0, stepName = ''Snapshot report (example.com/)''\<rparr>],
           resultName = ''User flow (example.com)''\<rparr> \<and>
   stepName (steps
      \<lparr>steps =
             [\<lparr>stepLhr = Lhr 0, stepName = ''Navigation report (example.com/)''\<rparr>,
              \<lparr>stepLhr = Lhr 0, stepName = ''Timespan report (example.com/)''\<rparr>,
              \<lparr>stepLhr = Lhr 0, stepName = ''Snapshot report (example.com/)''\<rparr>],
           resultName = ''User flow (example.com)''\<rparr> ! 2) = ''Snapshot report (example.com/)''"
proof -
  let ?env = "exampleEnv (FailsBeforeRequestor (Thrown 0)) (Inl (Thrown 0))"
  let ?opts = "exampleOptions None (Some exampleRegistry)"
  let ?res = "\<lparr>steps =
             [\<lparr>stepLhr = Lhr 0, stepName = ''Navigation report (example.com/)''\<rparr>,
              \<lparr>stepLhr = Lhr 0, stepName = ''Timespan report (example.com/)''\<rparr>,
              \<lparr>stepLhr = Lhr 0, stepName = ''Snapshot report (example.com/)''\<rparr>],
           resultName = ''User flow (example.com)''\<rparr>"
  have absent: "lookupRunnerOptions ?opts (exampleSteps ! 2) = None"
    and present: "lookupRunnerOptions ?opts (exampleSteps ! 1) \<noteq> None"
    by (simp_all add: lookupRunnerOptions_def exampleOptions_def exampleSteps_def exampleStep_def
          exampleRegistry_def)
  have len: "2 < length exampleSteps" by (simp add: exampleSteps_def)
  note run = exampleSteps_audit_registry [of "FailsBeforeRequestor (Thrown 0)" "Inl (Thrown 0)"]
  note run' = exampleSteps_audit [of "FailsBeforeRequestor (Thrown 0)" "Inl (Thrown 0)"]
  have other: "snd (auditGatherSteps ?env exampleSteps (exampleOptions None None)) = Inr ?res"
    by (simp add: run')
  from C5_reconstructed_options [OF run len absent]
  have "\<forall>opts' calls' res'.
          auditGatherSteps ?env exampleSteps opts' = (calls', Inr res') \<longrightarrow>
            stepName (steps res' ! 2) = stepName (steps ?res ! 2)"
    by (rule conjunct2)
  from this [rule_format, OF run']
  have same: "stepName (steps ?res ! 2) = ''Snapshot report (example.com/)''" by simp
  from absent present run other same show ?thesis by (intro conjI)
qed

text \<open>
  Claim C6. \<open>auditGatherSteps\<close> applied to the empty step list fails with the error
  \<open>EmptyFlow\<close> (the source's message is spelled out), it has called no collaborator
  (the list of calls is empty) and it yields no flow result. The same holds for
  \<open>createFlowResult\<close> on a session that has just been constructed.
\<close>

theorem C6_empty_flow:
  "auditGatherSteps env [] opts = ([], Inl EmptyFlow) \<and>
   EmptyFlow = Error ''Need at least one step before getting the result'' \<and>
   createFlowResult env (newUserFlow p flowOpts) = ([], Inl EmptyFlow)"
  by (simp add: auditGatherSteps_def createFlowResult_def newUserFlow_def EmptyFlow_def)

text \<open>
  Claim C7. A step without a name flag is named \<open>Navigation\<close>, \<open>Timespan\<close> or
  \<open>Snapshot\<close>, by its gather mode, followed by \<open>report\<close> and, in parentheses, the
  \<open>hostname\<close> and the \<open>pathname\<close> of its final displayed URL; \<open>search\<close> and \<open>hash\<close> are
  not part of the name. The result has one entry for each step, in order.
\<close>

theorem C7_default_step_name:
  assumes "auditGatherSteps env gs opts = (calls, Inr res)"
    and "i < length gs"
    and "flagsName (stepFlags (gs ! i)) = None"
  shows "length (steps res) = length gs \<and>
         (\<exists>u. newURL env (finalDisplayedUrl (artifacts (gs ! i))) = Inr u \<and>
            stepName (steps res ! i) =
              (case gatherMode (artifacts (gs ! i)) of
                 Navigation \<Rightarrow> ''Navigation''
               | Timespan \<Rightarrow> ''Timespan''
               | Snapshot \<Rightarrow> ''Snapshot'') @ '' report ('' @ hostname u @ pathname u @ '')'')"
proof -
  from auditGatherSteps_name_nth [OF assms(1,2)] have
    len: "length (steps res) = length gs" and
    nm: "resolveStepName env (gs ! i) = Inr (stepName (steps res ! i))" by simp_all
  from nm assms(3) have "getDefaultStepName env (artifacts (gs ! i)) = Inr (stepName (steps res ! i))"
    by (simp add: resolveStepName_def)
  then have "\<exists>u. newURL env (finalDisplayedUrl (artifacts (gs ! i))) = Inr u \<and>
            stepName (steps res ! i) =
              (case gatherMode (artifacts (gs ! i)) of
                 Navigation \<Rightarrow> ''Navigation''
               | Timespan \<Rightarrow> ''Timespan''
               | Snapshot \<Rightarrow> ''Snapshot'') @ '' report ('' @ hostname u @ pathname u @ '')''"
    by (cases "gatherMode (artifacts (gs ! i))")
       (auto simp: getDefaultStepName_def shortenUrl_def split: sum.splits)
  with len show ?thesis by simp
qed

text \<open>
  Three steps on \<open>https://example.com/\<close> with the modes navigation, timespan and
  snapshot get exactly the three names of the claim.
\<close>

theorem C7_default_step_name_witness:
  "snd (auditGatherSteps (exampleEnv (FailsBeforeRequestor (Thrown 0)) (Inl (Thrown 0)))
          exampleSteps (exampleOptions None None)) = Inr
      \<lparr>steps =
             [\<lparr>stepLhr = Lhr 0, stepName = ''Navigation report (example.com/)''\<rparr>,
              \<lparr>stepLhr = Lhr 0, stepName = ''Timespan report (example.com/)''\<rparr>,
              \<lparr>stepLhr = Lhr 0, stepName = ''Snapshot report (example.com/)''\<rparr>],
           resultName = ''User flow (example.com)''\<rparr> \<and>
   map stepName (steps
      \<lparr>steps =
             [\<lparr>stepLhr = Lhr 0, stepName = ''Navigation report (example.com/)''\<rparr>,
              \<lparr>stepLhr = Lhr 0, stepName = ''Timespan report (example.com/)''\<rparr>,
              \<lparr>stepLhr = Lhr 0, stepName = ''Snapshot report (example.com/)''\<rparr>],
           resultName = ''User flow (example.com)''\<rparr>) =
     [''Navigation report (example.com/)'', ''Timespan report (example.com/)'',
      ''Snapshot report (example.com/)''] \<and>
   map (\<lambda>g. flagsName (stepFlags g)) exampleSteps = [None, None, None] \<and>
   map (\<lambda>g. finalDisplayedUrl (artifacts g)) exampleSteps =
     [''https://example.com/'', ''https://example.com/'', ''https://example.com/''] \<and>
   exampleURL ''https://example.com/'' =
     Inr \<lparr>hostname = ''example.com'', pathname = ''/'', search = [], hash = []\<rparr>"
proof -
  let ?env = "exampleEnv (FailsBeforeRequestor (Thrown 0)) (Inl (Thrown 0))"
  note run = exampleSteps_audit [of "FailsBeforeRequestor (Thrown 0)" "Inl (Thrown 0)"]
  let ?res = "\<lparr>steps =
             [\<lparr>stepLhr = Lhr 0, stepName = ''Navigation report (example.com/)''\<rparr>,
              \<lparr>stepLhr = Lhr 0, stepName = ''Timespan report (example.com/)''\<rparr>,
              \<lparr>stepLhr = Lhr 0, stepName = ''Snapshot report (example.com/)''\<rparr>],
           resultName = ''User flow (example.com)''\<rparr>"
  have flags: "map (\<lambda>g. flagsName (stepFlags g)) exampleSteps = [None, None, None]"
    and urls: "map (\<lambda>g. finalDisplayedUrl (artifacts g)) exampleSteps =
      [''https://example.com/'', ''https://example.com/'', ''https://example.com/'']"
    and url: "exampleURL ''https://example.com/'' =
      Inr \<lparr>hostname = ''example.com'', pathname = ''/'', search = [], hash = []\<rparr>"
    by (simp_all add: exampleSteps_def exampleStep_def flagsName_def exampleArtifacts_def
          exampleURL_def)
  have n0: "flagsName (stepFlags (exampleSteps ! 0)) = None"
    and n1: "flagsName (stepFlags (exampleSteps ! 1)) = None"
    and n2: "flagsName (stepFlags (exampleSteps ! 2)) = None"
    by (simp_all add: exampleSteps_def exampleStep_def flagsName_def)
  have l0: "0 < length exampleSteps" and l1: "1 < length exampleSteps"
    and l2: "2 < length exampleSteps"
    by (simp_all add: exampleSteps_def)
  have env: "newURL ?env = exampleURL" by (simp add: exampleEnv_def)
  have a0: "stepName (steps ?res ! 0) = ''Navigation report (example.com/)''"
    using C7_default_step_name [OF run l0 n0] url
    by (simp add: env exampleSteps_def exampleStep_def exampleArtifacts_def)
  have a1: "stepName (steps ?res ! 1) = ''Timespan report (example.com/)''"
    using C7_default_step_name [OF run l1 n1] url
    by (simp add: env exampleSteps_def exampleStep_def exampleArtifacts_def)
  have a2: "stepName (steps ?res ! 2) = ''Snapshot report (example.com/)''"
    using C7_default_step_name [OF run l2 n2] url
    by (simp add: env exampleSteps_def exampleStep_def exampleArtifacts_def)
  have names: "map stepName (steps ?res) =
        [''Navigation report (example.com/)'', ''Timespan report (example.com/)'',
         ''Snapshot report (example.com/)'']"
    using a0 a1 a2 by simp
  have "snd (auditGatherSteps ?env exampleSteps (exampleOptions None None)) = Inr ?res"
    by (simp add: run)
  then show ?thesis using names flags urls url by (intro conjI)
qed

text \<open>
  Claim C8, as the source has it. The step list of a flow result is not empty; the
  name of the result is the session-level name when one is given and is not the
  empty string, and otherwise (no name, or the empty string) it is \<open>User flow (\<close>,
  the \<open>hostname\<close> of the first step's final displayed URL, and \<open>)\<close>.
\<close>

theorem C8_flow_name:
  assumes "auditGatherSteps env gs opts = (calls, Inr res)"
  shows "\<exists>first rest u.
           gs = first # rest \<and>
           newURL env (finalDisplayedUrl (artifacts first)) = Inr u \<and>
           (\<forall>n. auditName opts = Some n \<and> n \<noteq> [] \<longrightarrow> resultName res = n) \<and>
           (auditName opts = None \<or> auditName opts = Some [] \<longrightarrow>
              resultName res = ''User flow ('' @ hostname u @ '')'')"
proof -
  from auditGatherSteps_flowName [OF assms] obtain first rest u where
    gs: "gs = first # rest" and
    u: "newURL env (finalDisplayedUrl (artifacts first)) = Inr u" and
    n: "resultName res = resolveFlowName (auditName opts) u"
    by blast
  have "\<forall>n. auditName opts = Some n \<and> n \<noteq> [] \<longrightarrow> resultName res = n"
    using n by (simp add: resolveFlowName_def)
  moreover have "auditName opts = None \<or> auditName opts = Some [] \<longrightarrow>
      resultName res = ''User flow ('' @ hostname u @ '')''"
    using n by (auto simp: resolveFlowName_def)
  ultimately show ?thesis using gs u by blast
qed

theorem C8_flow_name_witness:
  "auditGatherSteps (exampleEnv (FailsBeforeRequestor (Thrown 0)) (Inl (Thrown 0)))
     [exampleStep 0 Navigation None] (exampleOptions (Some ''Checkout'') None) =
     ([InitializeConfigCall Navigation None None,
       RunnerAuditCall (exampleArtifacts Navigation) \<lparr>config = LhConfig 1, computedCache = []\<rparr>],
      Inr \<lparr>steps = [\<lparr>stepLhr = Lhr 0, stepName = ''Navigation report (example.com/)''\<rparr>],
           resultName = ''Checkout''\<rparr>) \<and>
   auditGatherSteps (exampleEnv (FailsBeforeRequestor (Thrown 0)) (Inl (Thrown 0)))
     [exampleStep 0 Navigation None] (exampleOptions None None) =
     ([InitializeConfigCall Navigation None None,
       RunnerAuditCall (exampleArtifacts Navigation) \<lparr>config = LhConfig 1, computedCache = []\<rparr>],
      Inr \<lparr>steps = [\<lparr>stepLhr = Lhr 0, stepName = ''Navigation report (example.com/)''\<rparr>],
           resultName = ''User flow (example.com)''\<rparr>)"
proof -
  let ?env = "exampleEnv (FailsBeforeRequestor (Thrown 0)) (Inl (Thrown 0))"
  let ?u = "\<lparr>hostname = ''example.com'', pathname = ''/'', search = [], hash = []\<rparr>"
  let ?g = "exampleStep 0 Navigation None"
  let ?sts = "[\<lparr>stepLhr = Lhr 0, stepName = ''Navigation report (example.com/)''\<rparr>]"
  note named = exampleStep_single [of "FailsBeforeRequestor (Thrown 0)" "Inl (Thrown 0)" "Some ''Checkout''"]
  note unnamed = exampleStep_single [of "FailsBeforeRequestor (Thrown 0)" "Inl (Thrown 0)" None]
  have url: "newURL ?env (finalDisplayedUrl (artifacts ?g)) = Inr ?u"
    by (simp add: exampleEnv_def exampleStep_def exampleArtifacts_def exampleURL_def)
  have a: "auditName (exampleOptions (Some ''Checkout'') None) = Some ''Checkout''"
    and b: "auditName (exampleOptions None None) = None"
    by (simp_all add: exampleOptions_def)
  from C8_flow_name [OF named] a
  have "resultName \<lparr>steps = ?sts, resultName = resolveFlowName (Some ''Checkout'') ?u\<rparr> = ''Checkout''"
    by auto
  then have 1: "resolveFlowName (Some ''Checkout'') ?u = ''Checkout''" by simp
  from C8_flow_name [OF unnamed] b url
  have "resultName \<lparr>steps = ?sts, resultName = resolveFlowName None ?u\<rparr> = ''User flow (example.com)''"
    by auto
  then have 2: "resolveFlowName None ?u = ''User flow (example.com)''" by simp
  from named unnamed show ?thesis unfolding 1 2 by (intro conjI)
qed

text \<open>
  Claim C8 as it was stated lets every given name through. The empty string is given
  here, and the result is named after the host.
\<close>

theorem C8_empty_name_not_used:
  "auditName (exampleOptions (Some []) None) = Some [] \<and>
   auditGatherSteps (exampleEnv (FailsBeforeRequestor (Thrown 0)) (Inl (Thrown 0)))
     [exampleStep 0 Navigation None] (exampleOptions (Some []) None) =
     ([InitializeConfigCall Navigation None None,
       RunnerAuditCall (exampleArtifacts Navigation) \<lparr>config = LhConfig 1, computedCache = []\<rparr>],
      Inr \<lparr>steps = [\<lparr>stepLhr = Lhr 0, stepName = ''Navigation report (example.com/)''\<rparr>],
           resultName = ''User flow (example.com)''\<rparr>)"
  by (simp add: exampleStep_single resolveFlowName_def) (simp add: exampleOptions_def)

text \<open>
  Claim C10. A name flag that is the empty string counts as no name flag: the name
  of the step is the generated default in both cases, and so it is in the result
  of \<open>auditGatherSteps\<close>.
\<close>

theorem C10_empty_step_name:
  "resolveStepName env (g\<lparr>stepFlags := Some (f\<lparr>name := Some []\<rparr>)\<rparr>)
     = getDefaultStepName env (artifacts g) \<and>
   resolveStepName env (g\<lparr>stepFlags := Some (f\<lparr>name := None\<rparr>)\<rparr>)
     = getDefaultStepName env (artifacts g) \<and>
   resolveStepName env (g\<lparr>stepFlags := None\<rparr>) = getDefaultStepName env (artifacts g) \<and>
   (auditGatherSteps env gs opts = (calls, Inr res) \<and> i < length gs \<and>
    flagsName (stepFlags (gs ! i)) = Some [] \<longrightarrow>
      getDefaultStepName env (artifacts (gs ! i)) = Inr (stepName (steps res ! i)))"
proof (intro conjI impI)
  show "resolveStepName env (g\<lparr>stepFlags := Some (f\<lparr>name := Some []\<rparr>)\<rparr>)
     = getDefaultStepName env (artifacts g)"
    "resolveStepName env (g\<lparr>stepFlags := Some (f\<lparr>name := None\<rparr>)\<rparr>)
     = getDefaultStepName env (artifacts g)"
    "resolveStepName env (g\<lparr>stepFlags := None\<rparr>) = getDefaultStepName env (artifacts g)"
    by (simp_all add: resolveStepName_def flagsName_def)
next
  assume a: "auditGatherSteps env gs opts = (calls, Inr res) \<and> i < length gs \<and>
    flagsName (stepFlags (gs ! i)) = Some []"
  then have "resolveStepName env (gs ! i) = Inr (stepName (steps res ! i))"
    using auditGatherSteps_name_nth by blast
  with a show "getDefaultStepName env (artifacts (gs ! i)) = Inr (stepName (steps res ! i))"
    by (simp add: resolveStepName_def)
qed

theorem C10_empty_step_name_witness:
  "flagsName (stepFlags (exampleStep 0 Snapshot (Some (emptyFlags\<lparr>name := Some []\<rparr>)))) = Some [] \<and>
   auditGatherSteps (exampleEnv (FailsBeforeRequestor (Thrown 0)) (Inl (Thrown 0)))
     [exampleStep 0 Snapshot (Some (emptyFlags\<lparr>name := Some []\<rparr>))] (exampleOptions None None) =
     ([InitializeConfigCall Snapshot None (Some (emptyFlags\<lparr>name := Some []\<rparr>)),
       RunnerAuditCall (exampleArtifacts Snapshot) \<lparr>config = LhConfig 1, computedCache = []\<rparr>],
      Inr \<lparr>steps = [\<lparr>stepLhr = Lhr 0, stepName = ''Snapshot report (example.com/)''\<rparr>],
           resultName = ''User flow (example.com)''\<rparr>) \<and>
   getDefaultStepName (exampleEnv (FailsBeforeRequestor (Thrown 0)) (Inl (Thrown 0)))
     (exampleArtifacts Snapshot) = Inr ''Snapshot report (example.com/)''"
proof -
  let ?env = "exampleEnv (FailsBeforeRequestor (Thrown 0)) (Inl (Thrown 0))"
  let ?g = "exampleStep 0 Snapshot (Some (emptyFlags\<lparr>name := Some []\<rparr>))"
  let ?res = "\<lparr>steps = [\<lparr>stepLhr = Lhr 0, stepName = ''Snapshot report (example.com/)''\<rparr>],
           resultName = ''User flow (example.com)''\<rparr>"
  have n: "flagsName (stepFlags ?g) = Some []"
    by (simp add: exampleStep_def flagsName_def)
  have run: "auditGatherSteps ?env [?g] (exampleOptions None None) =
     ([InitializeConfigCall Snapshot None (Some (emptyFlags\<lparr>name := Some []\<rparr>)),
       RunnerAuditCall (exampleArtifacts Snapshot) \<lparr>config = LhConfig 1, computedCache = []\<rparr>],
      Inr ?res)"
    by (simp add: auditGatherSteps_def auditStep_def auditWith_def
        resolveStepName_def flagsName_def getDefaultStepName_def shortenUrl_def
        lookupRunnerOptions_def exampleEnv_def exampleOptions_def exampleStep_def
        exampleArtifacts_def exampleURL_def resolveFlowName_def Let_def)
  have "getDefaultStepName ?env (artifacts ([?g] ! 0)) = Inr (stepName (steps ?res ! 0))"
    using C10_empty_step_name [where env = ?env and gs = "[?g]"
        and opts = "exampleOptions None None" and res = ?res and i = 0] run n
    by simp
  then have d: "getDefaultStepName ?env (exampleArtifacts Snapshot) = Inr ''Snapshot report (example.com/)''"
    by (simp add: exampleStep_def)
  from n run d show ?thesis by (intro conjI)
qed

end
